theory Spec2Isabelle
  imports Main "HOL-Library.Sublist"
begin

section \<open>Upload widgets of \<^verbatim>\<open>load-assignment/script.js\<close>\<close>

text \<open>
  The source file holds two variants of one widget. The first (lines 1 to 94) keeps a
  deduplicated selection, gives every entry a remove control, validates on submit and
  reports through a status element. The second (lines 94 to 165) appends every file,
  has no remove control, no validation, and reports through \<^verbatim>\<open>alert\<close>.
  Both are embedded here: state is a record passed through every handler, a thrown
  exception is a value, and the parts the browser supplies (the JSON parser, the HTML
  parser behind \<^verbatim>\<open>innerHTML\<close>, the conversion of a value to text) are parameters.
\<close>

subsection \<open>Values shared by both variants\<close>

text \<open>
  A \<^verbatim>\<open>File\<close> object. \<open>handle\<close> stands for the object's identity: two picks of the same
  file on disk are two objects that agree on name and size and differ in the handle, so
  \<^verbatim>\<open>f !== file\<close> is inequality of the whole record.
\<close>

record file_obj =
  handle :: nat
  name :: string
  size_f :: nat

text \<open>The exceptions the handlers can meet, each with its \<^verbatim>\<open>message\<close>.\<close>

datatype js_error = Error string | TypeError string | SyntaxError string

fun message :: "js_error \<Rightarrow> string" where
  "message (Error m) = m"
| "message (TypeError m) = m"
| "message (SyntaxError m) = m"

text \<open>
  How a handler ends: it returns, or an exception leaves it uncaught. The state built
  up to that point stays in both cases.
\<close>

datatype 'a completion = Returned 'a | Uncaught js_error 'a

fun state_of :: "'a completion \<Rightarrow> 'a" where
  "state_of (Returned w) = w"
| "state_of (Uncaught e w) = w"

fun returned :: "'a completion \<Rightarrow> bool" where
  "returned (Returned w) = True"
| "returned (Uncaught e w) = False"

text \<open>
  A value produced by \<^verbatim>\<open>JSON.parse\<close>. Numbers are IEEE doubles in the browser; their
  type is left open as \<open>'n\<close>. An object is the list of its own properties, each name once.
\<close>

datatype 'n json =
    JNull
  | JBool bool
  | JNum 'n
  | JStr string
  | JArr "'n json list"
  | JObj "(string \<times> 'n json) list"

text \<open>
  What the browser supplies.
  \<^item> \<open>json_parse\<close>: \<^verbatim>\<open>JSON.parse\<close>; \<open>Inl m\<close> is a \<^verbatim>\<open>SyntaxError\<close> with message \<open>m\<close>.
  \<^item> \<open>num_truthy\<close>: whether a number is truthy (it is not zero).
  \<^item> \<open>to_string_other\<close>: the conversion to text of a value that is not a string, as the
    setter of \<^verbatim>\<open>textContent\<close> performs it; it can throw (an object with an own
    \<^verbatim>\<open>toString\<close> property that is not callable).
  \<^item> \<open>null_read\<close>: the message of the \<^verbatim>\<open>TypeError\<close> for reading a property of
    \<^verbatim>\<open>null\<close>.
  \<^item> \<open>null_write\<close>: the message of the \<^verbatim>\<open>TypeError\<close> for setting a property of
    \<^verbatim>\<open>null\<close>.
  \<^item> \<open>has_remove\<close>: whether \<^verbatim>\<open>li.querySelector('.remove')\<close> finds an element after
    \<^verbatim>\<open>li.innerHTML\<close> was set to the markup built around this file name. The name
    is parsed as HTML, so a name such as \<^verbatim>\<open>a<!--b\<close> swallows the button and the
    query returns \<^verbatim>\<open>null\<close>.
\<close>

record 'n platform =
  json_parse :: "string \<Rightarrow> string + 'n json"
  num_truthy :: "'n \<Rightarrow> bool"
  to_string_other :: "'n json \<Rightarrow> js_error + string"
  null_read :: string
  null_write :: string
  has_remove :: "string \<Rightarrow> bool"

text \<open>Reading \<^verbatim>\<open>data.k\<close> for \<open>k\<close> one of \<^verbatim>\<open>status\<close>, \<^verbatim>\<open>message\<close>: \<^verbatim>\<open>null\<close> throws,
  an object gives its own property or \<^verbatim>\<open>undefined\<close> (\<open>None\<close>), every other value gives
  \<^verbatim>\<open>undefined\<close>, since no prototype defines these two names.\<close>

fun get_prop :: "'n platform \<Rightarrow> 'n json \<Rightarrow> string \<Rightarrow> js_error + 'n json option" where
  "get_prop pf JNull k = Inl (TypeError (null_read pf))"
| "get_prop pf (JObj kvs) k = Inr (map_of kvs k)"
| "get_prop pf v k = Inr None"

text \<open>Truthiness, as \<^verbatim>\<open>||\<close> tests it.\<close>

fun truthy :: "'n platform \<Rightarrow> 'n json option \<Rightarrow> bool" where
  "truthy pf None = False"
| "truthy pf (Some JNull) = False"
| "truthy pf (Some (JBool b)) = b"
| "truthy pf (Some (JNum n)) = num_truthy pf n"
| "truthy pf (Some (JStr s)) = (s \<noteq> [])"
| "truthy pf (Some (JArr xs)) = True"
| "truthy pf (Some (JObj kvs)) = True"

text \<open>The text a value becomes when it is assigned to \<^verbatim>\<open>textContent\<close>.\<close>

fun dom_string :: "'n platform \<Rightarrow> 'n json \<Rightarrow> js_error + string" where
  "dom_string pf (JStr s) = Inr s"
| "dom_string pf v = to_string_other pf v"

text \<open>\<^verbatim>\<open>s.includes(t)\<close>: \<open>t\<close> occurs in \<open>s\<close> as a contiguous run.\<close>

fun starts_with :: "string \<Rightarrow> string \<Rightarrow> bool" where
  "starts_with s [] = True"
| "starts_with [] (c # t) = False"
| "starts_with (d # s) (c # t) = (d = c \<and> starts_with s t)"

fun includes_str :: "string \<Rightarrow> string \<Rightarrow> bool" where
  "includes_str [] t = (t = [])"
| "includes_str (c # s) t = (starts_with (c # s) t \<or> includes_str s t)"

text \<open>A number in a template literal: its decimal digits.\<close>

definition digit_char :: "nat \<Rightarrow> char" where
  "digit_char d = char_of (48 + d)"

fun show_nat :: "nat \<Rightarrow> string" where
  "show_nat n = (if n < 10 then [digit_char n] else show_nat (n div 10) @ [digit_char (n mod 10)])"

declare show_nat.simps [simp del]

text \<open>
  What \<^verbatim>\<open>fetch\<close> and the reading of the body deliver. \<open>Rejected e\<close>: the promise of
  \<^verbatim>\<open>fetch\<close> rejects, no response exists. Otherwise a response with its status code and
  the outcome of reading its body as text, which can reject too.
\<close>

record response =
  status :: nat
  body :: "js_error + string"

datatype fetch_result = Rejected js_error | Responded response

definition ok :: "response \<Rightarrow> bool" where
  "ok res = (200 \<le> status res \<and> status res \<le> 299)"

text \<open>A request as \<^verbatim>\<open>fetch\<close> receives it: the path and the entries of the form data.\<close>

datatype part = Field string | FilePart file_obj

record request =
  url :: string
  entries :: "(string \<times> part) list"

subsection \<open>First variant: the selection\<close>

text \<open>
  An element of the rendered list. \<open>li_id\<close> is the identity of the DOM node; \<open>li_file\<close> is
  the file its remove control was bound to. The label markup is not kept.
\<close>

record li =
  li_id :: nat
  li_file :: file_obj

text \<open>
  The state of the widget: the array \<^verbatim>\<open>selectedFiles\<close>, the children of \<^verbatim>\<open>fileListEl\<close>,
  the text and class of \<^verbatim>\<open>status\<close>, the values of the form's fields with the defaults
  \<^verbatim>\<open>form.reset()\<close> restores, the highlight class of the drop area, the requests handed to
  \<^verbatim>\<open>fetch\<close> so far, the number of submit handlers suspended at their \<^verbatim>\<open>await\<close>, and
  the number of nodes created (the next fresh \<open>li_id\<close>).
\<close>

record widget =
  selectedFiles :: "file_obj list"
  fileListEl :: "li list"
  status_text :: string
  status_class :: string
  form_values :: "(string \<times> string) list"
  form_defaults :: "(string \<times> string) list"
  highlight :: bool
  requests :: "request list"
  in_flight :: nat
  nodes :: nat

text \<open>The comparison of the dedup test (line 31): equal name and equal size.\<close>

definition same_key :: "file_obj \<Rightarrow> file_obj \<Rightarrow> bool" where
  "same_key f g = (name f = name g \<and> size_f f = size_f g)"

text \<open>
  The body of the \<^verbatim>\<open>forEach\<close> callback for one file (lines 31 to 43): the dedup test
  with its early return, the push, the creation of the node, the binding of the remove
  control, which throws when the query found nothing, and the insertion into the list.
\<close>

definition add_file :: "'n platform \<Rightarrow> file_obj \<Rightarrow> widget \<Rightarrow> widget completion" where
  "add_file pf file w =
     (if list_ex (\<lambda>f. name f = name file \<and> size_f f = size_f file) (selectedFiles w)
      then Returned w
      else
        let w1 = w\<lparr>selectedFiles := selectedFiles w @ [file]\<rparr>;
            node = \<lparr>li_id = nodes w1, li_file = file\<rparr>;
            w2 = w1\<lparr>nodes := Suc (nodes w1)\<rparr>
        in if has_remove pf (name file)
           then Returned (w2\<lparr>fileListEl := fileListEl w2 @ [node]\<rparr>)
           else Uncaught (TypeError (null_write pf)) w2)"

text \<open>\<^verbatim>\<open>handleFiles\<close>: the callback on every file in turn; an exception ends the loop.\<close>

fun handleFiles :: "'n platform \<Rightarrow> file_obj list \<Rightarrow> widget \<Rightarrow> widget completion" where
  "handleFiles pf [] w = Returned w"
| "handleFiles pf (file # rest) w =
     (case add_file pf file w of
        Returned w' \<Rightarrow> handleFiles pf rest w'
      | Uncaught e w' \<Rightarrow> Uncaught e w')"

text \<open>
  The click handler of a remove control (lines 39 to 42), for the node it was bound
  with: the selection loses the bound file, compared by identity, and the list loses the
  node.
\<close>

definition click_remove :: "li \<Rightarrow> widget \<Rightarrow> widget" where
  "click_remove node w =
     w\<lparr>selectedFiles := filter (\<lambda>f. f \<noteq> li_file node) (selectedFiles w),
       fileListEl := filter (\<lambda>n. li_id n \<noteq> li_id node) (fileListEl w)\<rparr>"

subsection \<open>First variant: the submit handler\<close>

text \<open>
  The handler up to its first \<^verbatim>\<open>await\<close> (lines 48 to 65): the status is blanked, an
  empty selection ends the handler with a message, otherwise the form data is built from
  the form's fields and the selected files, the status announces the upload and the
  request goes to \<^verbatim>\<open>fetch\<close>. The result is the new state and the request sent, if any.
\<close>

definition submit_begin :: "widget \<Rightarrow> widget \<times> request option" where
  "submit_begin w =
     (let w0 = w\<lparr>status_text := [], status_class := []\<rparr>
      in if selectedFiles w0 = []
         then (w0\<lparr>status_text := ''Select at least one file'', status_class := ''error''\<rparr>, None)
         else
           let formData = map (\<lambda>(k, v). (k, Field v)) (form_values w0)
                          @ map (\<lambda>file. (''files'', FilePart file)) (selectedFiles w0);
               w1 = w0\<lparr>status_text :=
                          ''Uploading '' @ show_nat (length (selectedFiles w0)) @ '' file(s)...'',
                        status_class := ''loading''\<rparr>;
               req = \<lparr>url = ''/upload'', entries = formData\<rparr>
           in (w1\<lparr>requests := requests w1 @ [req], in_flight := Suc (in_flight w1)\<rparr>,
               Some req))"

text \<open>\<^verbatim>\<open>v === t\<close> for a string \<open>t\<close> and a value \<open>v\<close> that may be \<^verbatim>\<open>undefined\<close>.\<close>

fun strict_eq_str :: "'n json option \<Rightarrow> string \<Rightarrow> bool" where
  "strict_eq_str (Some (JStr s)) t = (s = t)"
| "strict_eq_str v t = False"

text \<open>\<^verbatim>\<open>v || d\<close> for a default \<open>d\<close>.\<close>

fun or_else :: "'n platform \<Rightarrow> 'n json option \<Rightarrow> 'n json \<Rightarrow> 'n json" where
  "or_else pf None d = d"
| "or_else pf (Some v) d = (if truthy pf (Some v) then v else d)"

text \<open>
  The rest of the \<^verbatim>\<open>try\<close> block, once \<^verbatim>\<open>fetch\<close> has settled (lines 65 to 87); \<open>Inl\<close> is
  the exception thrown in it. No statement changes the state before one that can throw,
  so an exception leaves the state as it was.
\<close>

fun try_block :: "'n platform \<Rightarrow> fetch_result \<Rightarrow> widget \<Rightarrow> js_error + widget" where
  "try_block pf (Rejected e) w = Inl e"
| "try_block pf (Responded res) w =
     (case body res of
        Inl e \<Rightarrow> Inl e
      | Inr text \<Rightarrow>
          if \<not> ok res
          then Inl (Error (''HTTP '' @ show_nat (status res) @ '': '' @ text))
          else
            (case json_parse pf text of
               Inl m \<Rightarrow> Inl (SyntaxError m)
             | Inr data \<Rightarrow>
                 (case get_prop pf data ''status'' of
                    Inl e \<Rightarrow> Inl e
                  | Inr st \<Rightarrow>
                      if strict_eq_str st ''success''
                      then Inr (w\<lparr>status_text := ''Upload successful!'',
                                  status_class := ''success'',
                                  selectedFiles := [],
                                  fileListEl := [],
                                  form_values := form_defaults w\<rparr>)
                      else
                        (case get_prop pf data ''message'' of
                           Inl e \<Rightarrow> Inl e
                         | Inr m \<Rightarrow>
                             (case dom_string pf (or_else pf m (JStr ''Upload failed'')) of
                                Inl e \<Rightarrow> Inl e
                              | Inr s \<Rightarrow>
                                  Inr (w\<lparr>status_text := s, status_class := ''error''\<rparr>))))))"

text \<open>The \<^verbatim>\<open>catch\<close> block (lines 88 to 92).\<close>

definition catch_block :: "js_error \<Rightarrow> widget \<Rightarrow> widget" where
  "catch_block err w =
     w\<lparr>status_text := (if includes_str (message err) ''JSON''
                        then ''Server response invalid'' else message err),
       status_class := ''error''\<rparr>"

text \<open>
  The handler from the moment \<^verbatim>\<open>fetch\<close> settles to its end, on the state the widget has
  at that moment.
\<close>

definition submit_resume :: "'n platform \<Rightarrow> fetch_result \<Rightarrow> widget \<Rightarrow> widget completion" where
  "submit_resume pf r w =
     (let w0 = w\<lparr>in_flight := in_flight w - 1\<rparr>
      in case try_block pf r w0 of
           Inl err \<Rightarrow> Returned (catch_block err w0)
         | Inr w' \<Rightarrow> Returned w')"

text \<open>
  One whole run of the handler with no other event in between; \<open>net\<close> is what the
  network makes of the request.
\<close>

definition submit ::
  "'n platform \<Rightarrow> (request \<Rightarrow> fetch_result) \<Rightarrow> widget \<Rightarrow> widget completion" where
  "submit pf net w =
     (case submit_begin w of
        (w1, None) \<Rightarrow> Returned w1
      | (w1, Some req) \<Rightarrow> submit_resume pf (net req) w1)"

subsection \<open>First variant: the widget as an event loop\<close>

text \<open>
  The widget when the page has loaded, for a form with the given default values.
\<close>

definition initial :: "(string \<times> string) list \<Rightarrow> widget" where
  "initial defaults =
     \<lparr>selectedFiles = [], fileListEl = [], status_text = [], status_class = [],
      form_values = defaults, form_defaults = defaults, highlight = False,
      requests = [], in_flight = 0, nodes = 0\<rparr>"

text \<open>
  What can happen to the page: drag events over the drop area, a drop or a picker change
  with a list of files, a click on the remove control of the node with a given id, the
  user editing the form, a submit, and the settling of a request in flight.
\<close>

datatype event =
    DragOver
  | DragLeave
  | Drop "file_obj list"
  | Change "file_obj list"
  | ClickRemove nat
  | Edit "(string \<times> string) list"
  | Submit
  | Settle fetch_result

text \<open>
  One event. A remove control can be clicked only while its node is in the list, and a
  request settles only while one is in flight. An exception that leaves a handler is
  reported by the browser and the page goes on with the state reached.
\<close>

fun fire :: "'n platform \<Rightarrow> event \<Rightarrow> widget \<Rightarrow> widget" where
  "fire pf DragOver w = w\<lparr>highlight := True\<rparr>"
| "fire pf DragLeave w = w\<lparr>highlight := False\<rparr>"
| "fire pf (Drop fs) w = state_of (handleFiles pf fs (w\<lparr>highlight := False\<rparr>))"
| "fire pf (Change fs) w = state_of (handleFiles pf fs w)"
| "fire pf (ClickRemove i) w =
     (case find (\<lambda>n. li_id n = i) (fileListEl w) of
        None \<Rightarrow> w
      | Some node \<Rightarrow> click_remove node w)"
| "fire pf (Edit vs) w = w\<lparr>form_values := vs\<rparr>"
| "fire pf Submit w = fst (submit_begin w)"
| "fire pf (Settle r) w =
     (if in_flight w = 0 then w else state_of (submit_resume pf r w))"

fun run :: "'n platform \<Rightarrow> event list \<Rightarrow> widget \<Rightarrow> widget" where
  "run pf [] w = w"
| "run pf (ev # evs) w = run pf evs (fire pf ev w)"

subsection \<open>Second variant\<close>

text \<open>
  The state of the second widget: \<^verbatim>\<open>selectedFiles\<close>, the text of each child of
  \<^verbatim>\<open>fileList\<close>, the values of the title and subject fields with the defaults
  \<^verbatim>\<open>form.reset()\<close> restores, the messages shown by \<^verbatim>\<open>alert\<close>, and the requests handed
  to \<^verbatim>\<open>fetch\<close>.
\<close>

record widget2 =
  selectedFiles2 :: "file_obj list"
  fileList2 :: "string list"
  title_value :: string
  subject_value :: string
  title_default :: string
  subject_default :: string
  alerts :: "string list"
  requests2 :: "request list"

text \<open>\<^verbatim>\<open>handleFiles\<close> of the second variant (lines 124 to 131): every file is pushed.\<close>

fun handleFiles2 :: "file_obj list \<Rightarrow> widget2 \<Rightarrow> widget2" where
  "handleFiles2 [] w = w"
| "handleFiles2 (file # rest) w =
     handleFiles2 rest
       (w\<lparr>selectedFiles2 := selectedFiles2 w @ [file],
          fileList2 := fileList2 w @ [name file]\<rparr>)"

text \<open>The handler up to its \<^verbatim>\<open>await\<close> (lines 134 to 148): no test, the request is sent.\<close>

definition submit2_begin :: "widget2 \<Rightarrow> widget2 \<times> request" where
  "submit2_begin w =
     (let formData = [(''title'', Field (title_value w)), (''subject'', Field (subject_value w))]
                     @ map (\<lambda>file. (''files'', FilePart file)) (selectedFiles2 w);
          req = \<lparr>url = ''/notes/upload'', entries = formData\<rparr>
      in (w\<lparr>requests2 := requests2 w @ [req]\<rparr>, req))"

text \<open>
  The rest of the \<^verbatim>\<open>try\<close> block (lines 150 to 160). \<^verbatim>\<open>response.json()\<close> reads the body
  and parses it. The template literal of the failure branch has braces without the
  dollar sign, so its text is shown as written and \<^verbatim>\<open>data.message\<close> is not read.
\<close>

definition brace_failed :: string where
  "brace_failed = ''Error: {data.message || '' @ [CHR 0x27] @ ''Upload failed'' @ [CHR 0x27] @ ''}''"

fun try_block2 :: "'n platform \<Rightarrow> fetch_result \<Rightarrow> widget2 \<Rightarrow> js_error + widget2" where
  "try_block2 pf (Rejected e) w = Inl e"
| "try_block2 pf (Responded res) w =
     (case body res of
        Inl e \<Rightarrow> Inl e
      | Inr text \<Rightarrow>
          (case json_parse pf text of
             Inl m \<Rightarrow> Inl (SyntaxError m)
           | Inr data \<Rightarrow>
               (case get_prop pf data ''status'' of
                  Inl e \<Rightarrow> Inl e
                | Inr st \<Rightarrow>
                    if strict_eq_str st ''success''
                    then Inr (w\<lparr>alerts := alerts w @ [''Study materials uploaded successfully!''],
                                title_value := title_default w,
                                subject_value := subject_default w,
                                fileList2 := [],
                                selectedFiles2 := []\<rparr>)
                    else Inr (w\<lparr>alerts := alerts w @ [brace_failed]\<rparr>))))"

text \<open>The \<^verbatim>\<open>catch\<close> block (lines 161 to 163); its template literal is shown as written too.\<close>

definition catch_block2 :: "js_error \<Rightarrow> widget2 \<Rightarrow> widget2" where
  "catch_block2 err w = w\<lparr>alerts := alerts w @ [''Error: {err.message}'']\<rparr>"

definition submit2_resume :: "'n platform \<Rightarrow> fetch_result \<Rightarrow> widget2 \<Rightarrow> widget2 completion" where
  "submit2_resume pf r w =
     (case try_block2 pf r w of
        Inl err \<Rightarrow> Returned (catch_block2 err w)
      | Inr w' \<Rightarrow> Returned w')"

definition submit2 ::
  "'n platform \<Rightarrow> (request \<Rightarrow> fetch_result) \<Rightarrow> widget2 \<Rightarrow> widget2 completion" where
  "submit2 pf net w =
     (case submit2_begin w of (w1, req) \<Rightarrow> submit2_resume pf (net req) w1)"

subsection \<open>The dedup key, the operations as the specification words them, the invariant\<close>

text \<open>The pair the dedup test of the first variant compares.\<close>

definition dedup_key :: "file_obj \<Rightarrow> string \<times> nat" where
  "dedup_key f = (name f, size_f f)"

text \<open>
  \<open>addFiles\<close> as the specification words it: a candidate whose key is in the selection
  is skipped, any other candidate is appended at the end.
\<close>

fun addFiles :: "file_obj list \<Rightarrow> file_obj list \<Rightarrow> file_obj list" where
  "addFiles sel [] = sel"
| "addFiles sel (c # cs) =
     (if dedup_key c \<in> set (map dedup_key sel) then addFiles sel cs
      else addFiles (sel @ [c]) cs)"

text \<open>Removal by key, the policy the specification leaves open beside removal by identity.\<close>

definition remove_by_key :: "file_obj \<Rightarrow> file_obj list \<Rightarrow> file_obj list" where
  "remove_by_key f sel = filter (\<lambda>g. \<not> same_key g f) sel"

text \<open>
  What every state of the first variant satisfies: the keys of the selection are
  pairwise different, no two nodes of the list are bound to the same file, and the file
  of every node is in the selection and has a name whose markup kept the remove control.
\<close>

definition inv :: "'n platform \<Rightarrow> widget \<Rightarrow> bool" where
  "inv pf w =
     (distinct (map dedup_key (selectedFiles w)) \<and>
      distinct (map li_file (fileListEl w)) \<and>
      list_all (\<lambda>n. li_file n \<in> set (selectedFiles w) \<and> has_remove pf (name (li_file n)))
        (fileListEl w))"

subsection \<open>Concrete values for the instances below\<close>

text \<open>
  A platform for the instances: its parser knows two bodies and rejects every other
  text, its messages for \<^verbatim>\<open>null\<close> are those of one browser, and in place of the HTML
  parser it loses the remove control when the name opens a comment with \<^verbatim>\<open><!--\<close>, one
  of the names at which a browser loses it.
\<close>

definition success_body :: string where
  \<open>success_body = ''{"status":"success"}''\<close>

definition too_large_body :: string where
  \<open>too_large_body = ''{"status":"error","message":"too large"}''\<close>

definition sample_parse :: "string \<Rightarrow> string + unit json" where
  "sample_parse s =
     (if s = success_body then Inr (JObj [(''status'', JStr ''success'')])
      else if s = too_large_body
      then Inr (JObj [(''status'', JStr ''error''), (''message'', JStr ''too large'')])
      else Inl ''Unexpected token in JSON'')"

definition sample_platform :: "unit platform" where
  "sample_platform =
     \<lparr>json_parse = sample_parse,
      num_truthy = (\<lambda>n. False),
      to_string_other = (\<lambda>v. Inr ''[object Object]''),
      null_read = ''Cannot read properties of null (reading 'status')'',
      null_write = ''Cannot set properties of null (setting 'onclick')'',
      has_remove = (\<lambda>n. \<not> includes_str n ''<!--'')\<rparr>"

definition file_a :: file_obj where
  "file_a = \<lparr>handle = 1, name = ''a.txt'', size_f = 10\<rparr>"

definition file_a2 :: file_obj where
  "file_a2 = \<lparr>handle = 2, name = ''a.txt'', size_f = 10\<rparr>"

definition file_b :: file_obj where
  "file_b = \<lparr>handle = 3, name = ''b.txt'', size_f = 20\<rparr>"

definition file_c :: file_obj where
  "file_c = \<lparr>handle = 4, name = ''c.pdf'', size_f = 20\<rparr>"

definition sample_widget :: widget where
  "sample_widget =
     \<lparr>selectedFiles = [file_a, file_b],
      fileListEl = [\<lparr>li_id = 0, li_file = file_a\<rparr>, \<lparr>li_id = 1, li_file = file_b\<rparr>],
      status_text = [], status_class = [],
      form_values = [(''title'', ''Essay'')], form_defaults = [(''title'', [])],
      highlight = False, requests = [], in_flight = 0, nodes = 2\<rparr>"

definition sample_widget2 :: widget2 where
  "sample_widget2 =
     \<lparr>selectedFiles2 = [], fileList2 = [], title_value = ''Notes'', subject_value = ''Maths'',
      title_default = [], subject_default = [], alerts = [], requests2 = []\<rparr>"

definition refused :: "request \<Rightarrow> fetch_result" where
  "refused req = Rejected (TypeError ''Failed to fetch'')"

section \<open>Properties\<close>

subsection \<open>Strings\<close>

text \<open>\<open>includes_str\<close> is the test for a contiguous occurrence.\<close>

lemma starts_with_iff: "starts_with s t \<longleftrightarrow> (\<exists>q. s = t @ q)"
  by (induction s t rule: starts_with.induct) auto

lemma includes_str_iff: "includes_str s t \<longleftrightarrow> (\<exists>p q. s = p @ t @ q)"
proof (induction s)
  case Nil
  then show ?case by auto
next
  case (Cons c s)
  show ?case
  proof
    assume "includes_str (c # s) t"
    then consider "starts_with (c # s) t" | "includes_str s t" by auto
    then show "\<exists>p q. c # s = p @ t @ q"
    proof cases
      case 1
      then obtain q where "c # s = t @ q" by (auto simp: starts_with_iff)
      then have "c # s = [] @ t @ q" by simp
      then show ?thesis by blast
    next
      case 2
      then obtain p q where "s = p @ t @ q" using Cons.IH by auto
      then have "c # s = (c # p) @ t @ q" by simp
      then show ?thesis by blast
    qed
  next
    assume "\<exists>p q. c # s = p @ t @ q"
    then obtain p q where pq: "c # s = p @ t @ q" by auto
    show "includes_str (c # s) t"
    proof (cases p)
      case Nil
      with pq have "starts_with (c # s) t" by (auto simp: starts_with_iff)
      then show ?thesis by simp
    next
      case (Cons a p')
      with pq have "s = p' @ t @ q" by simp
      then have "includes_str s t" using Cons.IH by blast
      then show ?thesis by simp
    qed
  qed
qed

subsection \<open>Keys\<close>

lemma same_key_iff: "same_key f g \<longleftrightarrow> dedup_key f = dedup_key g"
  by (auto simp: same_key_def dedup_key_def)

lemma key_exists_iff:
  "list_ex (\<lambda>f. name f = name c \<and> size_f f = size_f c) sel
     \<longleftrightarrow> dedup_key c \<in> set (map dedup_key sel)"
  by (induction sel) (auto simp: dedup_key_def)

subsection \<open>The submit handlers return\<close>

lemma submit_begin_empty:
  "selectedFiles w = [] \<Longrightarrow>
   submit_begin w = (w\<lparr>status_text := ''Select at least one file'', status_class := ''error''\<rparr>, None)"
  by (simp add: submit_begin_def Let_def)

lemma submit_begin_nonempty:
  "selectedFiles w \<noteq> [] \<Longrightarrow>
   \<exists>w1 req. submit_begin w = (w1, Some req) \<and>
     selectedFiles w1 = selectedFiles w \<and> fileListEl w1 = fileListEl w \<and>
     form_values w1 = form_values w \<and> form_defaults w1 = form_defaults w \<and>
     requests w1 = requests w @ [req] \<and> in_flight w1 = Suc (in_flight w)"
  by (simp add: submit_begin_def Let_def)

lemma try_block_class:
  "try_block pf r w = Inr w' \<Longrightarrow> status_class w' = ''success'' \<or> status_class w' = ''error''"
  by (cases r) (auto split: sum.splits if_splits)

lemma submit_resume_returns:
  "\<exists>w'. submit_resume pf r w = Returned w' \<and>
         (status_class w' = ''success'' \<or> status_class w' = ''error'')"
  by (auto simp: submit_resume_def Let_def catch_block_def split: sum.splits dest: try_block_class)

lemma submit_returns:
  "\<exists>w'. submit pf net w = Returned w' \<and>
         (status_class w' = ''success'' \<or> status_class w' = ''error'')"
proof (cases "selectedFiles w = []")
  case True
  then show ?thesis by (simp add: submit_def submit_begin_empty)
next
  case False
  then obtain w1 req where "submit_begin w = (w1, Some req)"
    using submit_begin_nonempty by blast
  then show ?thesis using submit_resume_returns [of pf "net req" w1] by (simp add: submit_def)
qed

lemma submit2_returns:
  "\<exists>w'. submit2 pf net w = Returned w' \<and> length (alerts w') = Suc (length (alerts w))"
  apply (simp add: submit2_def submit2_begin_def Let_def submit2_resume_def catch_block2_def split: sum.splits)
  apply (cases "net \<lparr>url = ''/notes/upload'', entries = [(''title'', Field (title_value w)), (''subject'', Field (subject_value w))] @ map (\<lambda>file. (''files'', FilePart file)) (selectedFiles2 w)\<rparr>")
   apply (auto split: sum.splits if_splits)
  done

subsection \<open>The selection after \<open>handleFiles\<close>\<close>

lemma add_file_selection:
  "selectedFiles (state_of (add_file pf c w)) =
     (if dedup_key c \<in> set (map dedup_key (selectedFiles w)) then selectedFiles w
      else selectedFiles w @ [c])"
  unfolding add_file_def key_exists_iff by (simp add: Let_def)

lemma add_file_returned:
  "has_remove pf (name c) \<Longrightarrow> returned (add_file pf c w)"
  unfolding add_file_def by (simp add: Let_def)

lemma add_file_skip:
  "dedup_key c \<in> set (map dedup_key (selectedFiles w)) \<Longrightarrow> add_file pf c w = Returned w"
  unfolding add_file_def key_exists_iff by simp

lemma add_file_inv:
  assumes "inv pf w"
  shows "inv pf (state_of (add_file pf c w))"
proof (cases "dedup_key c \<in> set (map dedup_key (selectedFiles w))")
  case True
  then show ?thesis using assms by (simp add: add_file_skip)
next
  case False
  then have notin: "c \<notin> set (selectedFiles w)" by auto
  have nonode: "c \<notin> li_file ` set (fileListEl w)"
    using assms notin by (auto simp: inv_def list_all_iff)
  show ?thesis
    using assms False nonode unfolding add_file_def key_exists_iff
    by (auto simp: inv_def Let_def list_all_iff)
qed

lemma handleFiles_inv:
  "inv pf w \<Longrightarrow> inv pf (state_of (handleFiles pf fs w))"
proof (induction fs arbitrary: w)
  case Nil
  then show ?case by simp
next
  case (Cons c fs)
  from Cons.prems have step: "inv pf (state_of (add_file pf c w))" by (rule add_file_inv)
  show ?case
  proof (cases "add_file pf c w")
    case (Returned w')
    with step have "inv pf w'" by simp
    then show ?thesis using Cons.IH Returned by simp
  next
    case (Uncaught e w')
    with step show ?thesis by simp
  qed
qed

lemma handleFiles_addFiles:
  "list_all (\<lambda>f. has_remove pf (name f)) fs \<Longrightarrow>
   \<exists>w'. handleFiles pf fs w = Returned w' \<and> selectedFiles w' = addFiles (selectedFiles w) fs"
proof (induction fs arbitrary: w)
  case Nil
  then show ?case by simp
next
  case (Cons c fs)
  then have "returned (add_file pf c w)" by (simp add: add_file_returned)
  then obtain w1 where w1: "add_file pf c w = Returned w1" by (cases "add_file pf c w") auto
  have sel1: "selectedFiles w1 =
     (if dedup_key c \<in> set (map dedup_key (selectedFiles w)) then selectedFiles w
      else selectedFiles w @ [c])"
    using add_file_selection [of pf c w] w1 by simp
  from Cons.prems have "list_all (\<lambda>f. has_remove pf (name f)) fs" by simp
  then obtain w' where "handleFiles pf fs w1 = Returned w'"
    "selectedFiles w' = addFiles (selectedFiles w1) fs"
    using Cons.IH by blast
  then show ?case using w1 sel1 by simp
qed

lemma addFiles_append:
  "\<exists>added. addFiles sel cs = sel @ added \<and> subseq added cs"
proof (induction cs arbitrary: sel)
  case Nil
  then show ?case by simp
next
  case (Cons c cs)
  show ?case
  proof (cases "dedup_key c \<in> set (map dedup_key sel)")
    case True
    obtain added where "addFiles sel cs = sel @ added" "subseq added cs"
      using Cons.IH by blast
    then show ?thesis using True by auto
  next
    case False
    obtain added where "addFiles (sel @ [c]) cs = (sel @ [c]) @ added" "subseq added cs"
      using Cons.IH by blast
    then have "addFiles sel (c # cs) = sel @ (c # added)" "subseq (c # added) (c # cs)"
      using False by auto
    then show ?thesis by blast
  qed
qed

lemma find_append:
  "find P (xs @ ys) = (case find P xs of None \<Rightarrow> find P ys | Some x \<Rightarrow> Some x)"
  by (induction xs) auto

lemma find_None_key:
  "find (\<lambda>g. dedup_key g = k) sel = None \<longleftrightarrow> k \<notin> set (map dedup_key sel)"
  by (auto simp: find_None_iff)

lemma addFiles_first_seen:
  "find (\<lambda>g. dedup_key g = k) (addFiles sel cs) = find (\<lambda>g. dedup_key g = k) (sel @ cs)"
proof (induction cs arbitrary: sel)
  case Nil
  then show ?case by simp
next
  case (Cons c cs)
  show ?case
  proof (cases "dedup_key c \<in> set (map dedup_key sel)")
    case True
    have "find (\<lambda>g. dedup_key g = k) (sel @ c # cs) = find (\<lambda>g. dedup_key g = k) (sel @ cs)"
    proof (cases "find (\<lambda>g. dedup_key g = k) sel")
      case None
      then have "k \<notin> set (map dedup_key sel)" by (simp add: find_None_key)
      with True have "dedup_key c \<noteq> k" by auto
      then show ?thesis using None by (simp add: find_append)
    next
      case (Some x)
      then show ?thesis by (simp add: find_append)
    qed
    then show ?thesis using True Cons.IH [of sel] by simp
  next
    case False
    then show ?thesis using Cons.IH [of "sel @ [c]"] by simp
  qed
qed

lemma handleFiles2_selection:
  "selectedFiles2 (handleFiles2 fs w) = selectedFiles2 w @ fs"
  by (induction fs arbitrary: w) auto

subsection \<open>Every event keeps the invariant\<close>

lemma click_remove_inv:
  assumes "inv pf w" "node \<in> set (fileListEl w)"
  shows "inv pf (click_remove node w)"
proof -
  have d: "distinct (map li_file (fileListEl w))" using assms by (simp add: inv_def)
  have other: "li_file n \<noteq> li_file node"
    if "n \<in> set (fileListEl w)" "li_id n \<noteq> li_id node" for n
  proof
    assume "li_file n = li_file node"
    with d that(1) assms(2) have "n = node" by (meson distinct_map inj_onD)
    with that(2) show False by simp
  qed
  show ?thesis
    using assms other
    by (auto simp: inv_def click_remove_def list_all_iff distinct_map_filter)
qed

lemma find_in_set: "find P xs = Some x \<Longrightarrow> x \<in> set xs"
  by (induction xs) (auto split: if_splits)

lemma submit_begin_inv: "inv pf w \<Longrightarrow> inv pf (fst (submit_begin w))"
  by (auto simp: submit_begin_def Let_def inv_def)

lemma try_block_inv: "inv pf w \<Longrightarrow> try_block pf r w = Inr w' \<Longrightarrow> inv pf w'"
  by (cases r) (auto simp: inv_def split: sum.splits if_splits)

lemma submit_resume_inv: "inv pf w \<Longrightarrow> inv pf (state_of (submit_resume pf r w))"
proof -
  assume a: "inv pf w"
  then have b: "inv pf (w\<lparr>in_flight := in_flight w - 1\<rparr>)" by (simp add: inv_def)
  show ?thesis
  proof (cases "try_block pf r (w\<lparr>in_flight := in_flight w - 1\<rparr>)")
    case (Inl e)
    then show ?thesis using b by (simp add: submit_resume_def Let_def catch_block_def inv_def)
  next
    case (Inr w')
    then show ?thesis using try_block_inv [OF b Inr] by (simp add: submit_resume_def Let_def)
  qed
qed

lemma fire_inv: "inv pf w \<Longrightarrow> inv pf (fire pf ev w)"
proof (cases ev)
  case (Drop fs)
  assume "inv pf w"
  then have "inv pf (w\<lparr>highlight := False\<rparr>)" by (simp add: inv_def)
  then show ?thesis using Drop by (simp add: handleFiles_inv)
next
  case (ClickRemove i)
  assume "inv pf w"
  then show ?thesis using ClickRemove
    by (auto split: option.splits dest: find_in_set intro: click_remove_inv)
qed (auto simp: handleFiles_inv submit_begin_inv submit_resume_inv, auto simp: inv_def)

lemma initial_inv: "inv pf (initial d)"
  by (simp add: inv_def initial_def)

lemma run_inv: "inv pf w \<Longrightarrow> inv pf (run pf evs w)"
  by (induction evs arbitrary: w) (auto simp: fire_inv)

lemma reachable_inv: "inv pf (run pf evs (initial d))"
  by (simp add: run_inv initial_inv)

subsection \<open>The concrete values, evaluated\<close>

lemma sample_run:
  "run sample_platform [Change [file_a, file_b, file_a2]] (initial [(''title'', [])])
     = sample_widget\<lparr>form_values := [(''title'', [])]\<rparr>"
  by (simp add: sample_platform_def initial_def add_file_def Let_def file_a_def file_b_def
        file_a2_def sample_widget_def)

lemma show_nat_3digits: "show_nat 200 = ''200''" "show_nat 400 = ''400''" "show_nat 500 = ''500''"
  by code_simp+

subsection \<open>The submit handler after the await\<close>

lemma submit_nonempty:
  "selectedFiles w \<noteq> [] \<Longrightarrow>
   \<exists>w1 req. submit pf net w = submit_resume pf (net req) w1 \<and>
     selectedFiles w1 = selectedFiles w \<and> fileListEl w1 = fileListEl w \<and>
     form_values w1 = form_values w \<and> form_defaults w1 = form_defaults w \<and>
     requests w1 = requests w @ [req] \<and> in_flight w1 = Suc (in_flight w)"
proof -
  assume "selectedFiles w \<noteq> []"
  then obtain w1 req where b: "submit_begin w = (w1, Some req)"
    and f: "selectedFiles w1 = selectedFiles w" "fileListEl w1 = fileListEl w"
      "form_values w1 = form_values w" "form_defaults w1 = form_defaults w"
      "requests w1 = requests w @ [req]" "in_flight w1 = Suc (in_flight w)"
    using submit_begin_nonempty [of w] by blast
  have "submit pf net w = submit_resume pf (net req) w1" using b by (simp add: submit_def)
  with f show ?thesis by blast
qed

lemma resume_caught:
  "try_block pf r (w\<lparr>in_flight := in_flight w - 1\<rparr>) = Inl e \<Longrightarrow>
   submit_resume pf r w = Returned (catch_block e (w\<lparr>in_flight := in_flight w - 1\<rparr>))"
  by (simp add: submit_resume_def Let_def)

lemma resume_rejected:
  "submit_resume pf (Rejected e) w = Returned (catch_block e (w\<lparr>in_flight := in_flight w - 1\<rparr>))"
  by (simp add: resume_caught)

lemma resume_not_ok:
  "\<not> ok res \<Longrightarrow> body res = Inr text \<Longrightarrow>
   submit_resume pf (Responded res) w =
     Returned (catch_block (Error (''HTTP '' @ show_nat (status res) @ '': '' @ text))
                 (w\<lparr>in_flight := in_flight w - 1\<rparr>))"
  by (simp add: resume_caught)

lemma resume_success:
  "ok res \<Longrightarrow> body res = Inr text \<Longrightarrow> json_parse pf text = Inr (JObj kvs) \<Longrightarrow>
   map_of kvs ''status'' = Some (JStr ''success'') \<Longrightarrow>
   submit_resume pf (Responded res) w =
     Returned (w\<lparr>in_flight := in_flight w - 1,
                 status_text := ''Upload successful!'', status_class := ''success'',
                 selectedFiles := [], fileListEl := [], form_values := form_defaults w\<rparr>)"
  by (simp add: submit_resume_def Let_def)

lemma resume_failure_message:
  "ok res \<Longrightarrow> body res = Inr text \<Longrightarrow> json_parse pf text = Inr (JObj kvs) \<Longrightarrow>
   map_of kvs ''status'' = Some (JStr st) \<Longrightarrow> st \<noteq> ''success'' \<Longrightarrow>
   map_of kvs ''message'' = Some (JStr m) \<Longrightarrow> m \<noteq> [] \<Longrightarrow>
   submit_resume pf (Responded res) w =
     Returned (w\<lparr>in_flight := in_flight w - 1, status_text := m, status_class := ''error''\<rparr>)"
  by (simp add: submit_resume_def Let_def)

lemma catch_block_fields:
  "status_class (catch_block e w) = ''error''"
  "status_text (catch_block e w) =
     (if includes_str (message e) ''JSON'' then ''Server response invalid'' else message e)"
  "selectedFiles (catch_block e w) = selectedFiles w"
  "fileListEl (catch_block e w) = fileListEl w"
  "form_values (catch_block e w) = form_values w"
  "requests (catch_block e w) = requests w"
  "in_flight (catch_block e w) = in_flight w"
  by (simp_all add: catch_block_def)

text \<open>
  The exception of \<^verbatim>\<open>handleFiles\<close> is not idle: a name that swallows the remove control
  is pushed, gets no node, and ends the loop before the files after it are looked at.
\<close>

lemma handleFiles_markup_slip:
  "handleFiles sample_platform [\<lparr>handle = 5, name = ''a<!--b'', size_f = 1\<rparr>, file_b] (initial [])
     = Uncaught (TypeError ''Cannot set properties of null (setting 'onclick')'')
         ((initial [])\<lparr>selectedFiles := [\<lparr>handle = 5, name = ''a<!--b'', size_f = 1\<rparr>],
                        nodes := 1\<rparr>)"
  by (simp add: add_file_def Let_def sample_platform_def initial_def)

subsection \<open>C1: the selection holds no key twice\<close>

text \<open>
  Claim C1, as the code has it. In the first variant, after any sequence of events
  (drops, picker changes, removals, submits) the selection holds no two entries with
  the same name and size, and a further call of \<^verbatim>\<open>handleFiles\<close> keeps it so. When every
  candidate's name keeps its remove control in the markup, the call returns and the
  selection is what the specification's \<open>addFiles\<close> gives: the former selection followed
  by candidates in the order presented, and for every key the first entry with that key
  in the result is the first one in the former selection followed by the candidates.
  The second variant appends every candidate.
\<close>

theorem handleFiles_deduplicates:
  assumes "w = run pf evs (initial d)"
  shows "distinct (map dedup_key (selectedFiles w))
    \<and> distinct (map dedup_key (selectedFiles (state_of (handleFiles pf fs w))))
    \<and> (list_all (\<lambda>f. has_remove pf (name f)) fs \<longrightarrow>
         (\<exists>w' added. handleFiles pf fs w = Returned w' \<and>
            selectedFiles w' = addFiles (selectedFiles w) fs \<and>
            selectedFiles w' = selectedFiles w @ added \<and> subseq added fs \<and>
            (\<forall>k. find (\<lambda>g. dedup_key g = k) (selectedFiles w')
                   = find (\<lambda>g. dedup_key g = k) (selectedFiles w @ fs))))
    \<and> selectedFiles2 (handleFiles2 fs v) = selectedFiles2 v @ fs"
proof (intro conjI impI)
  have i: "inv pf w" unfolding assms by (rule reachable_inv)
  then show "distinct (map dedup_key (selectedFiles w))" by (simp add: inv_def)
  from i have "inv pf (state_of (handleFiles pf fs w))" by (rule handleFiles_inv)
  then show "distinct (map dedup_key (selectedFiles (state_of (handleFiles pf fs w))))"
    by (simp add: inv_def)
  show "selectedFiles2 (handleFiles2 fs v) = selectedFiles2 v @ fs"
    by (rule handleFiles2_selection)
next
  assume "list_all (\<lambda>f. has_remove pf (name f)) fs"
  then obtain w' where r: "handleFiles pf fs w = Returned w'"
    and s: "selectedFiles w' = addFiles (selectedFiles w) fs"
    using handleFiles_addFiles by blast
  obtain added where a: "addFiles (selectedFiles w) fs = selectedFiles w @ added"
    "subseq added fs"
    using addFiles_append by blast
  have "\<forall>k. find (\<lambda>g. dedup_key g = k) (selectedFiles w')
              = find (\<lambda>g. dedup_key g = k) (selectedFiles w @ fs)"
    unfolding s by (simp add: addFiles_first_seen)
  with r s a show "\<exists>w' added. handleFiles pf fs w = Returned w' \<and>
            selectedFiles w' = addFiles (selectedFiles w) fs \<and>
            selectedFiles w' = selectedFiles w @ added \<and> subseq added fs \<and>
            (\<forall>k. find (\<lambda>g. dedup_key g = k) (selectedFiles w')
                   = find (\<lambda>g. dedup_key g = k) (selectedFiles w @ fs))"
    by auto
qed

text \<open>
  The instance after a picker change with three files, two of them with one key: a
  further call with a second object of a key already present and with a new file.
\<close>

theorem handleFiles_deduplicates_witness:
  "selectedFiles (run sample_platform [Change [file_a, file_b, file_a2]] (initial [(''title'', [])]))
     = [file_a, file_b] \<and>
   list_all (\<lambda>f. has_remove sample_platform (name f)) [file_a2, file_c] \<and>
   (\<exists>w'. handleFiles sample_platform [file_a2, file_c]
            (run sample_platform [Change [file_a, file_b, file_a2]] (initial [(''title'', [])]))
          = Returned w' \<and>
        selectedFiles w' = [file_a, file_b, file_c])"
proof -
  let ?w = "run sample_platform [Change [file_a, file_b, file_a2]] (initial [(''title'', [])])"
  have s: "selectedFiles ?w = [file_a, file_b]"
    unfolding sample_run by (simp add: sample_widget_def)
  have h: "list_all (\<lambda>f. has_remove sample_platform (name f)) [file_a2, file_c]"
    by (simp add: sample_platform_def file_a2_def file_c_def)
  have c: "addFiles [file_a, file_b] [file_a2, file_c] = [file_a, file_b, file_c]"
    by (simp add: dedup_key_def file_a_def file_a2_def file_b_def file_c_def)
  from handleFiles_deduplicates [of ?w sample_platform _ _ "[file_a2, file_c]", OF refl] h
  obtain w' where "handleFiles sample_platform [file_a2, file_c] ?w = Returned w'"
    "selectedFiles w' = addFiles (selectedFiles ?w) [file_a2, file_c]"
    by blast
  then have "\<exists>w'. handleFiles sample_platform [file_a2, file_c] ?w = Returned w' \<and>
        selectedFiles w' = [file_a, file_b, file_c]"
    unfolding s c by blast
  with s h show ?thesis by blast
qed

text \<open>
  The claim as written fails on the second variant: two objects with one name and size
  are both in the selection after one call.
\<close>

theorem handleFiles2_keeps_duplicates:
  "selectedFiles2 (handleFiles2 [file_a, file_a2] sample_widget2) = [file_a, file_a2] \<and>
   file_a \<noteq> file_a2 \<and> dedup_key file_a = dedup_key file_a2 \<and>
   \<not> distinct (map dedup_key (selectedFiles2 (handleFiles2 [file_a, file_a2] sample_widget2)))"
  by (simp add: sample_widget2_def dedup_key_def file_a_def file_a2_def)

subsection \<open>C2: submit with an empty selection\<close>

lemma submit2_sends:
  "\<exists>v' req. submit2 pf net v = Returned v' \<and> requests2 v' = requests2 v @ [req] \<and>
     url req = ''/notes/upload'' \<and>
     entries req = [(''title'', Field (title_value v)), (''subject'', Field (subject_value v))]
        @ map (\<lambda>file. (''files'', FilePart file)) (selectedFiles2 v)"
proof -
  let ?req = "\<lparr>url = ''/notes/upload'', entries = [(''title'', Field (title_value v)), (''subject'', Field (subject_value v))] @ map (\<lambda>file. (''files'', FilePart file)) (selectedFiles2 v)\<rparr>"
  let ?v1 = "v\<lparr>requests2 := requests2 v @ [?req]\<rparr>"
  have b: "submit2_begin v = (?v1, ?req)" by (simp add: submit2_begin_def Let_def)
  have "\<exists>v'. submit2_resume pf (net ?req) ?v1 = Returned v' \<and> requests2 v' = requests2 ?v1"
    by (cases "net ?req")
       (auto simp: submit2_resume_def catch_block2_def split: sum.splits if_splits)
  then show ?thesis using b by (auto simp: submit2_def)
qed

text \<open>
  Claim C2, as the code has it. In the first variant a submit with an empty selection
  ends at once: the status shows "Select at least one file" with class error, and
  nothing else of the state changes, so no request is handed to \<^verbatim>\<open>fetch\<close>, none is in
  flight and the selection is as it was. The second variant has no such test: a submit
  with an empty selection hands its request to \<^verbatim>\<open>fetch\<close>.
\<close>

theorem submit_empty_selection:
  "(selectedFiles w = [] \<longrightarrow>
      submit pf net w =
        Returned (w\<lparr>status_text := ''Select at least one file'', status_class := ''error''\<rparr>))
   \<and> (selectedFiles2 v = [] \<longrightarrow>
        (\<exists>v' req. submit2 pf net v = Returned v' \<and> requests2 v' = requests2 v @ [req]))"
  using submit2_sends [of pf net v] by (auto simp: submit_def submit_begin_empty)

text \<open>The instance at the first widget as loaded and at an empty second widget.\<close>

theorem submit_empty_selection_witness:
  "selectedFiles (initial []) = [] \<and>
   submit sample_platform refused (initial []) =
     Returned ((initial [])\<lparr>status_text := ''Select at least one file'', status_class := ''error''\<rparr>) \<and>
   requests (state_of (submit sample_platform refused (initial []))) = [] \<and>
   selectedFiles2 sample_widget2 = [] \<and>
   (\<exists>v' req. submit2 sample_platform refused sample_widget2 = Returned v' \<and>
       requests2 v' = requests2 sample_widget2 @ [req])"
proof -
  have h1: "selectedFiles (initial []) = []" by (simp add: initial_def)
  have h2: "selectedFiles2 sample_widget2 = []" by (simp add: sample_widget2_def)
  from submit_empty_selection [of "initial []" sample_platform refused sample_widget2] h1 h2
  have a: "submit sample_platform refused (initial []) =
     Returned ((initial [])\<lparr>status_text := ''Select at least one file'', status_class := ''error''\<rparr>)"
    and b: "\<exists>v' req. submit2 sample_platform refused sample_widget2 = Returned v' \<and>
       requests2 v' = requests2 sample_widget2 @ [req]"
    by blast+
  have c: "requests (state_of (submit sample_platform refused (initial []))) = []"
    by (simp add: a) (simp add: initial_def)
  show ?thesis using h1 h2 a b c by blast
qed

text \<open>
  The claim as written fails on the second variant: with an empty selection and a
  network that refuses the connection, the request is handed to \<^verbatim>\<open>fetch\<close> all the same.
\<close>

theorem submit2_empty_selection_sends:
  "selectedFiles2 sample_widget2 = [] \<and>
   requests2 (state_of (submit2 sample_platform refused sample_widget2)) =
     [\<lparr>url = ''/notes/upload'',
       entries = [(''title'', Field ''Notes''), (''subject'', Field ''Maths'')]\<rparr>] \<and>
   requests2 (state_of (submit2 sample_platform refused sample_widget2)) \<noteq> requests2 sample_widget2"
  by (simp add: sample_widget2_def submit2_def submit2_begin_def submit2_resume_def refused_def
        catch_block2_def Let_def)

subsection \<open>C3: a success response\<close>

lemma submit2_success:
  assumes "body res = Inr text" "json_parse pf text = Inr (JObj kvs)"
    "map_of kvs ''status'' = Some (JStr ''success'')"
  shows "submit2 pf (\<lambda>req. Responded res) v =
     Returned (v\<lparr>requests2 := requests2 v @ [snd (submit2_begin v)],
                 alerts := alerts v @ [''Study materials uploaded successfully!''],
                 title_value := title_default v, subject_value := subject_default v,
                 fileList2 := [], selectedFiles2 := []\<rparr>)"
  using assms by (simp add: submit2_def submit2_begin_def submit2_resume_def Let_def)

text \<open>
  Claim C3. When the response has a 2xx status and its body parses to an object whose
  \<^verbatim>\<open>status\<close> is the string "success", the handler of the first variant ends with the
  success text and class, an empty selection, an empty rendered list and the form's
  values back at their defaults. This holds for a whole run from a non-empty selection
  and for the part after the \<^verbatim>\<open>await\<close> on any state. The second variant alerts the
  success, and empties its selection and list and resets its fields, on any status.
\<close>

theorem success_response:
  assumes "ok res" "body res = Inr text" "json_parse pf text = Inr (JObj kvs)"
    "map_of kvs ''status'' = Some (JStr ''success'')"
  shows "(selectedFiles w \<noteq> [] \<longrightarrow>
           (\<exists>w'. submit pf (\<lambda>req. Responded res) w = Returned w' \<and>
              status_text w' = ''Upload successful!'' \<and> status_class w' = ''success'' \<and>
              selectedFiles w' = [] \<and> fileListEl w' = [] \<and>
              form_values w' = form_defaults w))
         \<and> (\<exists>u'. submit_resume pf (Responded res) u = Returned u' \<and>
              status_text u' = ''Upload successful!'' \<and> status_class u' = ''success'' \<and>
              selectedFiles u' = [] \<and> fileListEl u' = [] \<and>
              form_values u' = form_defaults u)
         \<and> (\<exists>v'. submit2 pf (\<lambda>req. Responded res) v = Returned v' \<and>
              alerts v' = alerts v @ [''Study materials uploaded successfully!''] \<and>
              selectedFiles2 v' = [] \<and> fileList2 v' = [] \<and>
              title_value v' = title_default v \<and> subject_value v' = subject_default v)"
proof (intro conjI impI)
  assume ne: "selectedFiles w \<noteq> []"
  obtain w1 req where s: "submit pf (\<lambda>req. Responded res) w = submit_resume pf (Responded res) w1"
    and f: "form_defaults w1 = form_defaults w"
    using submit_nonempty [OF ne, of pf "\<lambda>req. Responded res"] by blast
  show "\<exists>w'. submit pf (\<lambda>req. Responded res) w = Returned w' \<and>
          status_text w' = ''Upload successful!'' \<and> status_class w' = ''success'' \<and>
          selectedFiles w' = [] \<and> fileListEl w' = [] \<and> form_values w' = form_defaults w"
    unfolding s resume_success [OF assms] using f by simp
next
  show "\<exists>u'. submit_resume pf (Responded res) u = Returned u' \<and>
          status_text u' = ''Upload successful!'' \<and> status_class u' = ''success'' \<and>
          selectedFiles u' = [] \<and> fileListEl u' = [] \<and> form_values u' = form_defaults u"
    unfolding resume_success [OF assms] by simp
next
  show "\<exists>v'. submit2 pf (\<lambda>req. Responded res) v = Returned v' \<and>
          alerts v' = alerts v @ [''Study materials uploaded successfully!''] \<and>
          selectedFiles2 v' = [] \<and> fileList2 v' = [] \<and>
          title_value v' = title_default v \<and> subject_value v' = subject_default v"
    unfolding submit2_success [OF assms(2-4)] by simp
qed

text \<open>The instance at status 200 with the body \<^verbatim>\<open>{"status":"success"}\<close>.\<close>

theorem success_response_witness:
  "ok \<lparr>status = 200, body = Inr success_body\<rparr> \<and>
   json_parse sample_platform success_body = Inr (JObj [(''status'', JStr ''success'')]) \<and>
   selectedFiles sample_widget \<noteq> [] \<and>
   status_text (state_of (submit sample_platform
      (\<lambda>req. Responded \<lparr>status = 200, body = Inr success_body\<rparr>) sample_widget))
     = ''Upload successful!'' \<and>
   selectedFiles (state_of (submit sample_platform
      (\<lambda>req. Responded \<lparr>status = 200, body = Inr success_body\<rparr>) sample_widget)) = [] \<and>
   fileListEl (state_of (submit sample_platform
      (\<lambda>req. Responded \<lparr>status = 200, body = Inr success_body\<rparr>) sample_widget)) = [] \<and>
   form_values (state_of (submit sample_platform
      (\<lambda>req. Responded \<lparr>status = 200, body = Inr success_body\<rparr>) sample_widget))
     = [(''title'', [])]"
proof -
  let ?res = "\<lparr>status = 200, body = Inr success_body\<rparr>"
  have h1: "ok ?res" by (simp add: ok_def)
  have h2: "body ?res = Inr success_body" by simp
  have h3: "json_parse sample_platform success_body = Inr (JObj [(''status'', JStr ''success'')])"
    by (simp add: sample_platform_def sample_parse_def)
  have h4: "map_of [(''status'', JStr ''success'' :: unit json)] ''status''
              = Some (JStr ''success'')"
    by simp
  have h5: "selectedFiles sample_widget \<noteq> []" by (simp add: sample_widget_def)
  have d: "form_defaults sample_widget = [(''title'', [])]" by (simp add: sample_widget_def)
  from success_response [OF h1 h2 h3 h4, of sample_widget sample_widget sample_widget2] h5
  obtain w' where
    "submit sample_platform (\<lambda>req. Responded ?res) sample_widget = Returned w'"
    "status_text w' = ''Upload successful!''" "selectedFiles w' = []" "fileListEl w' = []"
    "form_values w' = form_defaults sample_widget"
    by blast
  then show ?thesis using h1 h3 h5 d by simp
qed

subsection \<open>C4 and C5: responses with a failure status\<close>

lemma submit_not_ok:
  assumes "selectedFiles w \<noteq> []" "\<not> ok res" "body res = Inr text"
  shows "\<exists>w'. submit pf (\<lambda>req. Responded res) w = Returned w' \<and>
           status_class w' = ''error'' \<and>
           status_text w' =
             (if includes_str (''HTTP '' @ show_nat (status res) @ '': '' @ text) ''JSON''
              then ''Server response invalid''
              else ''HTTP '' @ show_nat (status res) @ '': '' @ text) \<and>
           selectedFiles w' = selectedFiles w \<and> fileListEl w' = fileListEl w \<and>
           submit pf' (\<lambda>req. Responded res) w = Returned w'"
proof -
  obtain w1 req where
    s: "submit pf (\<lambda>req. Responded res) w = submit_resume pf (Responded res) w1"
    and f: "selectedFiles w1 = selectedFiles w" "fileListEl w1 = fileListEl w"
    using submit_nonempty [OF assms(1), of pf "\<lambda>req. Responded res"] by blast
  have p: "submit pf' (\<lambda>req. Responded res) w = submit pf (\<lambda>req. Responded res) w"
    by (simp add: submit_def resume_not_ok [OF assms(2,3)] split: prod.splits option.splits)
  show ?thesis
    unfolding p s resume_not_ok [OF assms(2,3)] using f by (simp add: catch_block_fields)
qed

text \<open>
  Claim C4, as the code has it. A response with a status outside 200 to 299 is not
  parsed: the handler ends with class error and the text "HTTP", the status and the
  body, replaced by "Server response invalid" when that text contains "JSON". The
  result is the same under every platform, so whatever the body would parse to, its
  \<^verbatim>\<open>message\<close> field is not shown.
\<close>

theorem failure_status_is_not_parsed:
  assumes "selectedFiles w \<noteq> []" "\<not> ok res" "body res = Inr text"
  shows "\<exists>w'. submit pf (\<lambda>req. Responded res) w = Returned w' \<and>
           status_class w' = ''error'' \<and>
           status_text w' =
             (if includes_str (''HTTP '' @ show_nat (status res) @ '': '' @ text) ''JSON''
              then ''Server response invalid''
              else ''HTTP '' @ show_nat (status res) @ '': '' @ text) \<and>
           selectedFiles w' = selectedFiles w \<and>
           submit pf' (\<lambda>req. Responded res) w = Returned w'"
  using submit_not_ok [OF assms, of pf pf'] by blast

text \<open>The instance at status 400 with a body the parser rejects.\<close>

theorem failure_status_is_not_parsed_witness:
  "selectedFiles sample_widget \<noteq> [] \<and>
   \<not> ok \<lparr>status = 400, body = Inr ''Bad Request''\<rparr> \<and>
   status_text (state_of (submit sample_platform
      (\<lambda>req. Responded \<lparr>status = 400, body = Inr ''Bad Request''\<rparr>) sample_widget))
     = ''HTTP 400: Bad Request''"
proof -
  let ?res = "\<lparr>status = 400, body = Inr ''Bad Request''\<rparr>"
  have h1: "selectedFiles sample_widget \<noteq> []" by (simp add: sample_widget_def)
  have h2: "\<not> ok ?res" by (simp add: ok_def)
  have h3: "body ?res = Inr ''Bad Request''" by simp
  have n: "\<not> includes_str ''HTTP 400: Bad Request'' ''JSON''" by simp
  obtain w' where
    "submit sample_platform (\<lambda>req. Responded ?res) sample_widget = Returned w'"
    "status_text w' =
       (if includes_str (''HTTP '' @ show_nat (status ?res) @ '': '' @ ''Bad Request'') ''JSON''
        then ''Server response invalid''
        else ''HTTP '' @ show_nat (status ?res) @ '': '' @ ''Bad Request'')"
    using failure_status_is_not_parsed [OF h1 h2 h3, of sample_platform sample_platform]
    by blast
  then show ?thesis using h1 h2 n by (simp add: show_nat_3digits)
qed

text \<open>
  The claim as written fails: at status 400 with a body that parses to an object whose
  \<^verbatim>\<open>message\<close> is "too large", the status shows the HTTP text, not that message.
\<close>

theorem failure_status_ignores_message:
  "\<not> ok \<lparr>status = 400, body = Inr too_large_body\<rparr> \<and>
   json_parse sample_platform too_large_body =
     Inr (JObj [(''status'', JStr ''error''), (''message'', JStr ''too large'')]) \<and>
   status_text (state_of (submit sample_platform
      (\<lambda>req. Responded \<lparr>status = 400, body = Inr too_large_body\<rparr>) sample_widget))
     = ''HTTP 400: '' @ too_large_body \<and>
   status_text (state_of (submit sample_platform
      (\<lambda>req. Responded \<lparr>status = 400, body = Inr too_large_body\<rparr>) sample_widget))
     \<noteq> ''too large''"
  by (simp add: submit_def submit_begin_def Let_def sample_widget_def resume_not_ok ok_def
        catch_block_def show_nat_3digits too_large_body_def success_body_def
        sample_platform_def sample_parse_def)

text \<open>
  Claim C5, as the code has it. A response with status 500 whose body does not parse
  ends with class error and the text "HTTP 500: " followed by the body, replaced by
  "Server response invalid" when the body contains "JSON". The result is the same under
  every platform: the body is not parsed, and no field of it is read.
\<close>

theorem status_500_unparseable:
  assumes "selectedFiles w \<noteq> []" "status res = 500" "body res = Inr text"
    "json_parse pf text = Inl m"
  shows "\<exists>w'. submit pf (\<lambda>req. Responded res) w = Returned w' \<and>
           status_class w' = ''error'' \<and>
           status_text w' =
             (if includes_str text ''JSON'' then ''Server response invalid''
              else ''HTTP 500: '' @ text) \<and>
           selectedFiles w' = selectedFiles w \<and> fileListEl w' = fileListEl w \<and>
           submit pf' (\<lambda>req. Responded res) w = Returned w'"
proof -
  have k: "\<not> ok res" using assms(2) by (simp add: ok_def)
  have i: "includes_str (''HTTP 500: '' @ text) ''JSON'' = includes_str text ''JSON''"
    by simp
  obtain w' where a: "submit pf (\<lambda>req. Responded res) w = Returned w'"
      "status_class w' = ''error''"
      "selectedFiles w' = selectedFiles w" "fileListEl w' = fileListEl w"
      "submit pf' (\<lambda>req. Responded res) w = Returned w'"
    and t: "status_text w' =
             (if includes_str (''HTTP '' @ show_nat (status res) @ '': '' @ text) ''JSON''
              then ''Server response invalid''
              else ''HTTP '' @ show_nat (status res) @ '': '' @ text)"
    using submit_not_ok [OF assms(1) k assms(3), of pf pf'] by blast
  have "status_text w' =
          (if includes_str text ''JSON'' then ''Server response invalid''
           else ''HTTP 500: '' @ text)"
    using t i by (simp add: assms(2) show_nat_3digits)
  with a show ?thesis by blast
qed

text \<open>The instance at a plain-text body.\<close>

theorem status_500_unparseable_witness:
  "selectedFiles sample_widget \<noteq> [] \<and>
   json_parse sample_platform ''Internal Server Error'' = Inl ''Unexpected token in JSON'' \<and>
   (\<exists>w'. submit sample_platform
       (\<lambda>req. Responded \<lparr>status = 500, body = Inr ''Internal Server Error''\<rparr>) sample_widget
         = Returned w' \<and>
       status_class w' = ''error'' \<and>
       status_text w' = ''HTTP 500: Internal Server Error'' \<and>
       selectedFiles w' = selectedFiles sample_widget)"
proof -
  let ?res = "\<lparr>status = 500, body = Inr ''Internal Server Error''\<rparr>"
  have h1: "selectedFiles sample_widget \<noteq> []" by (simp add: sample_widget_def)
  have h2: "status ?res = 500" by simp
  have h3: "body ?res = Inr ''Internal Server Error''" by simp
  have h4: "json_parse sample_platform ''Internal Server Error'' = Inl ''Unexpected token in JSON''"
    by (simp add: sample_platform_def sample_parse_def too_large_body_def success_body_def)
  have n: "\<not> includes_str ''Internal Server Error'' ''JSON''" by simp
  obtain w' where a: "submit sample_platform (\<lambda>req. Responded ?res) sample_widget = Returned w'"
      "status_class w' = ''error''" "selectedFiles w' = selectedFiles sample_widget"
    and t: "status_text w' =
             (if includes_str ''Internal Server Error'' ''JSON'' then ''Server response invalid''
              else ''HTTP 500: '' @ ''Internal Server Error'')"
    using status_500_unparseable [OF h1 h2 h3 h4, of sample_platform] by blast
  have "status_text w' = ''HTTP 500: Internal Server Error''" using t n by simp
  with a h1 h4 show ?thesis by blast
qed

text \<open>
  The claim as written fails: at status 500 with a body the parser rejects, the status
  shows the HTTP text, not "Server response invalid".
\<close>

theorem status_500_shows_http_text:
  "status \<lparr>status = 500, body = Inr ''Internal Server Error''\<rparr> = 500 \<and>
   json_parse sample_platform ''Internal Server Error'' = Inl ''Unexpected token in JSON'' \<and>
   status_text (state_of (submit sample_platform
      (\<lambda>req. Responded \<lparr>status = 500, body = Inr ''Internal Server Error''\<rparr>) sample_widget))
     = ''HTTP 500: Internal Server Error'' \<and>
   status_text (state_of (submit sample_platform
      (\<lambda>req. Responded \<lparr>status = 500, body = Inr ''Internal Server Error''\<rparr>) sample_widget))
     \<noteq> ''Server response invalid''"
  by (simp add: submit_def submit_begin_def Let_def sample_widget_def resume_not_ok ok_def
        catch_block_def show_nat_3digits too_large_body_def success_body_def
        sample_platform_def sample_parse_def)

subsection \<open>C6: an error payload with status 200\<close>

text \<open>
  Claim C6. When the response has status 200 and its body parses to the object with
  \<^verbatim>\<open>status\<close> "error" and \<^verbatim>\<open>message\<close> "too large", the handler ends with the status
  text "too large" and class error, and the selection and the rendered list are as they
  were. This holds for a whole run from a non-empty selection and for the part after the
  \<^verbatim>\<open>await\<close> on any state.
\<close>

theorem error_payload_keeps_selection:
  assumes "status res = 200" "body res = Inr text"
    "json_parse pf text = Inr (JObj [(''status'', JStr ''error''), (''message'', JStr ''too large'')])"
  shows "(selectedFiles w \<noteq> [] \<longrightarrow>
           (\<exists>w'. submit pf (\<lambda>req. Responded res) w = Returned w' \<and>
              status_text w' = ''too large'' \<and> status_class w' = ''error'' \<and>
              selectedFiles w' = selectedFiles w \<and> fileListEl w' = fileListEl w))
         \<and> (\<exists>u'. submit_resume pf (Responded res) u = Returned u' \<and>
              status_text u' = ''too large'' \<and> status_class u' = ''error'' \<and>
              selectedFiles u' = selectedFiles u \<and> fileListEl u' = fileListEl u)"
proof -
  have k: "ok res" using assms(1) by (simp add: ok_def)
  have r: "submit_resume pf (Responded res) x =
      Returned (x\<lparr>in_flight := in_flight x - 1, status_text := ''too large'',
                  status_class := ''error''\<rparr>)" for x
    by (rule resume_failure_message [OF k assms(2,3), where st = "''error''"]) simp_all
  show ?thesis
  proof (intro conjI impI)
    assume ne: "selectedFiles w \<noteq> []"
    obtain w1 req where
      s: "submit pf (\<lambda>req. Responded res) w = submit_resume pf (Responded res) w1"
      and f: "selectedFiles w1 = selectedFiles w" "fileListEl w1 = fileListEl w"
      using submit_nonempty [OF ne, of pf "\<lambda>req. Responded res"] by blast
    show "\<exists>w'. submit pf (\<lambda>req. Responded res) w = Returned w' \<and>
            status_text w' = ''too large'' \<and> status_class w' = ''error'' \<and>
            selectedFiles w' = selectedFiles w \<and> fileListEl w' = fileListEl w"
      unfolding s r using f by simp
  next
    show "\<exists>u'. submit_resume pf (Responded res) u = Returned u' \<and>
            status_text u' = ''too large'' \<and> status_class u' = ''error'' \<and>
            selectedFiles u' = selectedFiles u \<and> fileListEl u' = fileListEl u"
      unfolding r by simp
  qed
qed

text \<open>The instance at the body \<^verbatim>\<open>{"status":"error","message":"too large"}\<close>.\<close>

theorem error_payload_keeps_selection_witness:
  "status \<lparr>status = 200, body = Inr too_large_body\<rparr> = 200 \<and>
   json_parse sample_platform too_large_body =
     Inr (JObj [(''status'', JStr ''error''), (''message'', JStr ''too large'')]) \<and>
   selectedFiles sample_widget \<noteq> [] \<and>
   status_text (state_of (submit sample_platform
      (\<lambda>req. Responded \<lparr>status = 200, body = Inr too_large_body\<rparr>) sample_widget))
     = ''too large'' \<and>
   selectedFiles (state_of (submit sample_platform
      (\<lambda>req. Responded \<lparr>status = 200, body = Inr too_large_body\<rparr>) sample_widget))
     = [file_a, file_b]"
proof -
  let ?res = "\<lparr>status = 200, body = Inr too_large_body\<rparr>"
  have h1: "status ?res = 200" by simp
  have h2: "body ?res = Inr too_large_body" by simp
  have h3: "json_parse sample_platform too_large_body =
     Inr (JObj [(''status'', JStr ''error''), (''message'', JStr ''too large'')])"
    by (simp add: sample_platform_def sample_parse_def too_large_body_def success_body_def)
  have h4: "selectedFiles sample_widget \<noteq> []" by (simp add: sample_widget_def)
  have s: "selectedFiles sample_widget = [file_a, file_b]" by (simp add: sample_widget_def)
  from error_payload_keeps_selection [OF h1 h2 h3, of sample_widget sample_widget] h4
  obtain w' where
    "submit sample_platform (\<lambda>req. Responded ?res) sample_widget = Returned w'"
    "status_text w' = ''too large''" "selectedFiles w' = selectedFiles sample_widget"
    by blast
  then show ?thesis using h3 h4 s by simp
qed

subsection \<open>C7: the transport fails\<close>

lemma submit_rejected:
  assumes "selectedFiles w \<noteq> []"
  shows "\<exists>w'. submit pf (\<lambda>req. Rejected e) w = Returned w' \<and>
           status_class w' = ''error'' \<and>
           status_text w' =
             (if includes_str (message e) ''JSON'' then ''Server response invalid'' else message e) \<and>
           selectedFiles w' = selectedFiles w \<and> fileListEl w' = fileListEl w \<and>
           form_values w' = form_values w \<and> in_flight w' = in_flight w \<and>
           submit pf' (\<lambda>req. Rejected e) w = Returned w'"
proof -
  obtain w1 req where s: "submit pf (\<lambda>req. Rejected e) w = submit_resume pf (Rejected e) w1"
    and f: "selectedFiles w1 = selectedFiles w" "fileListEl w1 = fileListEl w"
      "form_values w1 = form_values w" "in_flight w1 = Suc (in_flight w)"
    using submit_nonempty [OF assms, of pf "\<lambda>req. Rejected e"] by blast
  have p: "submit pf' (\<lambda>req. Rejected e) w = submit pf (\<lambda>req. Rejected e) w"
    by (simp add: submit_def resume_rejected split: prod.splits option.splits)
  show ?thesis
    unfolding p s resume_rejected using f by (simp add: catch_block_fields)
qed

text \<open>
  Claim C7. When \<^verbatim>\<open>fetch\<close> rejects, no response exists and the handler ends with class
  error and with the failure's message as status text. The selection, the rendered list
  and the form's values are as they were, and the result is the same under every
  platform: the parser is not consulted. The message of a rejected \<^verbatim>\<open>fetch\<close> is the
  browser's; the hypothesis on it, that "JSON" does not occur in it, holds of "Failed to
  fetch", "NetworkError when attempting to fetch resource." and "Load failed", the
  messages browsers give.
\<close>

theorem transport_failure:
  assumes "selectedFiles w \<noteq> []" "\<not> includes_str (message e) ''JSON''"
  shows "\<exists>w'. submit pf (\<lambda>req. Rejected e) w = Returned w' \<and>
           status_class w' = ''error'' \<and> status_text w' = message e \<and>
           selectedFiles w' = selectedFiles w \<and> fileListEl w' = fileListEl w \<and>
           form_values w' = form_values w \<and> in_flight w' = in_flight w \<and>
           submit pf' (\<lambda>req. Rejected e) w = Returned w'"
  using submit_rejected [OF assms(1), of pf e pf'] assms(2) by simp

text \<open>The instances at a refused connection, with the message of each browser.\<close>

theorem transport_failure_witness:
  "selectedFiles sample_widget \<noteq> [] \<and>
   status_text (state_of (submit sample_platform (\<lambda>req. Rejected (TypeError ''Failed to fetch''))
      sample_widget)) = ''Failed to fetch'' \<and>
   status_text (state_of (submit sample_platform
      (\<lambda>req. Rejected (TypeError ''NetworkError when attempting to fetch resource.''))
      sample_widget)) = ''NetworkError when attempting to fetch resource.'' \<and>
   status_text (state_of (submit sample_platform (\<lambda>req. Rejected (TypeError ''Load failed''))
      sample_widget)) = ''Load failed'' \<and>
   status_class (state_of (submit sample_platform (\<lambda>req. Rejected (TypeError ''Failed to fetch''))
      sample_widget)) = ''error'' \<and>
   selectedFiles (state_of (submit sample_platform (\<lambda>req. Rejected (TypeError ''Failed to fetch''))
      sample_widget)) = [file_a, file_b]"
proof -
  have h: "selectedFiles sample_widget \<noteq> []" by (simp add: sample_widget_def)
  have s: "selectedFiles sample_widget = [file_a, file_b]" by (simp add: sample_widget_def)
  have n1: "\<not> includes_str (message (TypeError ''Failed to fetch'')) ''JSON''" by simp
  have n2: "\<not> includes_str
              (message (TypeError ''NetworkError when attempting to fetch resource.'')) ''JSON''"
    by simp
  have n3: "\<not> includes_str (message (TypeError ''Load failed'')) ''JSON''" by simp
  obtain w1 where a1:
    "submit sample_platform (\<lambda>req. Rejected (TypeError ''Failed to fetch'')) sample_widget
       = Returned w1"
    "status_text w1 = message (TypeError ''Failed to fetch'')"
    "status_class w1 = ''error''"
    "selectedFiles w1 = selectedFiles sample_widget"
    using transport_failure [OF h n1, of sample_platform sample_platform] by blast
  obtain w2 where a2:
    "submit sample_platform
       (\<lambda>req. Rejected (TypeError ''NetworkError when attempting to fetch resource.''))
       sample_widget = Returned w2"
    "status_text w2 = message (TypeError ''NetworkError when attempting to fetch resource.'')"
    using transport_failure [OF h n2, of sample_platform sample_platform] by blast
  obtain w3 where a3:
    "submit sample_platform (\<lambda>req. Rejected (TypeError ''Load failed'')) sample_widget
       = Returned w3"
    "status_text w3 = message (TypeError ''Load failed'')"
    using transport_failure [OF h n3, of sample_platform sample_platform] by blast
  show ?thesis using h s a1 a2 a3 by simp
qed

subsection \<open>C8 and C10: removal\<close>

lemma key_unique:
  assumes "distinct (map dedup_key sel)" "f \<in> set sel" "g \<in> set sel"
    "dedup_key g = dedup_key f"
  shows "g = f"
  using assms by (meson distinct_map inj_onD)

lemma remove_identity_key:
  assumes "distinct (map dedup_key sel)" "f \<in> set sel"
  shows "filter (\<lambda>g. g \<noteq> f) sel = remove_by_key f sel"
  unfolding remove_by_key_def
proof (rule filter_cong [OF refl])
  fix g assume "g \<in> set sel"
  then show "(g \<noteq> f) = (\<not> same_key g f)"
    using key_unique [OF assms, of g] by (auto simp: same_key_iff)
qed

text \<open>
  Claim C8. In every state the first variant can reach, for every node of the rendered
  list: the file the node is bound to is in the selection, and after a click on the
  node's remove control a call of \<^verbatim>\<open>handleFiles\<close> with one file of the same name and size
  returns and has appended that file, so it is in the selection.
\<close>

theorem remove_then_add_again:
  assumes "w = run pf evs (initial d)" "node \<in> set (fileListEl w)"
    "same_key f' (li_file node)"
  shows "li_file node \<in> set (selectedFiles w) \<and>
         (\<exists>w'. handleFiles pf [f'] (click_remove node w) = Returned w' \<and>
            selectedFiles w' = filter (\<lambda>g. g \<noteq> li_file node) (selectedFiles w) @ [f'] \<and>
            f' \<in> set (selectedFiles w'))"
proof -
  have i: "inv pf w" unfolding assms(1) by (rule reachable_inv)
  have d: "distinct (map dedup_key (selectedFiles w))" using i by (simp add: inv_def)
  have m: "li_file node \<in> set (selectedFiles w)" and h: "has_remove pf (name (li_file node))"
    using i assms(2) by (auto simp: inv_def list_all_iff)
  have k: "dedup_key f' = dedup_key (li_file node)" using assms(3) by (simp add: same_key_iff)
  have n: "name f' = name (li_file node)" using assms(3) by (simp add: same_key_def)
  let ?w1 = "click_remove node w"
  have s1: "selectedFiles ?w1 = filter (\<lambda>g. g \<noteq> li_file node) (selectedFiles w)"
    by (simp add: click_remove_def)
  have gone: "dedup_key f' \<notin> set (map dedup_key (selectedFiles ?w1))"
  proof
    assume "dedup_key f' \<in> set (map dedup_key (selectedFiles ?w1))"
    then obtain g where g: "g \<in> set (selectedFiles w)" "g \<noteq> li_file node"
      "dedup_key g = dedup_key (li_file node)"
      unfolding s1 k by auto
    from key_unique [OF d m g(1) g(3)] g(2) show False by simp
  qed
  have "list_all (\<lambda>f. has_remove pf (name f)) [f']" using h n by simp
  then obtain w' where r: "handleFiles pf [f'] ?w1 = Returned w'"
    and s: "selectedFiles w' = addFiles (selectedFiles ?w1) [f']"
    using handleFiles_addFiles by blast
  have "selectedFiles w' = filter (\<lambda>g. g \<noteq> li_file node) (selectedFiles w) @ [f']"
    using s gone s1 by simp
  with r m show ?thesis by auto
qed

text \<open>
  The instance: \<^verbatim>\<open>a.txt\<close> is removed through its node, then a second object of the same
  name and size is added.
\<close>

theorem remove_then_add_again_witness:
  "\<lparr>li_id = 0, li_file = file_a\<rparr>
     \<in> set (fileListEl (run sample_platform [Change [file_a, file_b, file_a2]]
                          (initial [(''title'', [])]))) \<and>
   same_key file_a2 file_a \<and>
   (\<exists>w'. handleFiles sample_platform [file_a2]
            (click_remove \<lparr>li_id = 0, li_file = file_a\<rparr>
               (run sample_platform [Change [file_a, file_b, file_a2]] (initial [(''title'', [])])))
          = Returned w' \<and>
        selectedFiles w' = [file_b, file_a2])"
proof -
  let ?w = "run sample_platform [Change [file_a, file_b, file_a2]] (initial [(''title'', [])])"
  let ?n = "\<lparr>li_id = 0, li_file = file_a\<rparr>"
  have h1: "?n \<in> set (fileListEl ?w)"
    unfolding sample_run by (simp add: sample_widget_def)
  have h2: "same_key file_a2 (li_file ?n)" by (simp add: same_key_def file_a_def file_a2_def)
  have s: "filter (\<lambda>g. g \<noteq> file_a) (selectedFiles ?w) = [file_b]"
    unfolding sample_run by (simp add: sample_widget_def file_a_def file_b_def)
  from remove_then_add_again [OF refl h1 h2]
  obtain w' where "handleFiles sample_platform [file_a2] (click_remove ?n ?w) = Returned w'"
    "selectedFiles w' = filter (\<lambda>g. g \<noteq> li_file ?n) (selectedFiles ?w) @ [file_a2]"
    by blast
  then have "\<exists>w'. handleFiles sample_platform [file_a2] (click_remove ?n ?w) = Returned w' \<and>
        selectedFiles w' = [file_b, file_a2]"
    using s by simp
  with h1 h2 show ?thesis by simp
qed

text \<open>
  Claim C10. In every state the first variant can reach and for every file of the
  selection, dropping the entries identical to the file gives the same selection as
  dropping the entries with the file's name and size. So the click handler of a node,
  which compares by identity, leaves the selection that removal by key would leave.
\<close>

theorem remove_by_identity_is_by_key:
  assumes "w = run pf evs (initial d)"
  shows "(f \<in> set (selectedFiles w) \<longrightarrow>
           filter (\<lambda>g. g \<noteq> f) (selectedFiles w) = remove_by_key f (selectedFiles w))
         \<and> (node \<in> set (fileListEl w) \<longrightarrow>
           selectedFiles (click_remove node w) = remove_by_key (li_file node) (selectedFiles w))"
proof (intro conjI impI)
  have i: "inv pf w" unfolding assms(1) by (rule reachable_inv)
  then have d: "distinct (map dedup_key (selectedFiles w))" by (simp add: inv_def)
  {
    assume "f \<in> set (selectedFiles w)"
    then show "filter (\<lambda>g. g \<noteq> f) (selectedFiles w) = remove_by_key f (selectedFiles w)"
      using d by (rule remove_identity_key [rotated])
  }
  {
    assume "node \<in> set (fileListEl w)"
    then have "li_file node \<in> set (selectedFiles w)"
      using i by (auto simp: inv_def list_all_iff)
    then show "selectedFiles (click_remove node w)
                 = remove_by_key (li_file node) (selectedFiles w)"
      using d by (simp add: click_remove_def remove_identity_key)
  }
qed

text \<open>The instance at the file \<^verbatim>\<open>a.txt\<close> and its node.\<close>

theorem remove_by_identity_is_by_key_witness:
  "file_a \<in> set (selectedFiles (run sample_platform [Change [file_a, file_b, file_a2]]
                                  (initial [(''title'', [])]))) \<and>
   \<lparr>li_id = 0, li_file = file_a\<rparr>
     \<in> set (fileListEl (run sample_platform [Change [file_a, file_b, file_a2]]
                          (initial [(''title'', [])]))) \<and>
   filter (\<lambda>g. g \<noteq> file_a)
     (selectedFiles (run sample_platform [Change [file_a, file_b, file_a2]]
                       (initial [(''title'', [])]))) = [file_b] \<and>
   remove_by_key file_a
     (selectedFiles (run sample_platform [Change [file_a, file_b, file_a2]]
                       (initial [(''title'', [])]))) = [file_b] \<and>
   selectedFiles (click_remove \<lparr>li_id = 0, li_file = file_a\<rparr>
     (run sample_platform [Change [file_a, file_b, file_a2]] (initial [(''title'', [])])))
     = [file_b]"
proof -
  let ?w = "run sample_platform [Change [file_a, file_b, file_a2]] (initial [(''title'', [])])"
  let ?n = "\<lparr>li_id = 0, li_file = file_a\<rparr>"
  have h1: "file_a \<in> set (selectedFiles ?w)"
    unfolding sample_run by (simp add: sample_widget_def)
  have h2: "?n \<in> set (fileListEl ?w)"
    unfolding sample_run by (simp add: sample_widget_def)
  have s: "filter (\<lambda>g. g \<noteq> file_a) (selectedFiles ?w) = [file_b]"
    unfolding sample_run by (simp add: sample_widget_def file_a_def file_b_def)
  from remove_by_identity_is_by_key [OF refl, of file_a sample_platform _ _ ?n] h1 h2
  have a: "filter (\<lambda>g. g \<noteq> file_a) (selectedFiles ?w) = remove_by_key file_a (selectedFiles ?w)"
    and b: "selectedFiles (click_remove ?n ?w) = remove_by_key (li_file ?n) (selectedFiles ?w)"
    by blast+
  from a s have c: "remove_by_key file_a (selectedFiles ?w) = [file_b]" by simp
  from b c have e: "selectedFiles (click_remove ?n ?w) = [file_b]" by simp
  from h1 h2 s c e show ?thesis by blast
qed

subsection \<open>C9: every response ends in an outcome\<close>

text \<open>
  Claim C9. Whatever the network delivers (a rejection, or a response of any status
  with any body, readable or not), the submit handler returns: no exception leaves it.
  In the first variant the status then has class success or class error, never the
  class of the upload in progress; this holds for a whole run and for the part after the
  \<^verbatim>\<open>await\<close> on any state. In the second variant exactly one alert has been shown.
\<close>

theorem submit_never_throws:
  "(\<exists>w'. submit pf net w = Returned w' \<and>
         (status_class w' = ''success'' \<or> status_class w' = ''error''))
   \<and> (\<exists>u'. submit_resume pf r u = Returned u' \<and>
         (status_class u' = ''success'' \<or> status_class u' = ''error''))
   \<and> (\<exists>v'. submit2 pf net2 v = Returned v' \<and> length (alerts v') = Suc (length (alerts v)))"
  using submit_returns [of pf net w] submit_resume_returns [of pf r u]
    submit2_returns [of pf net2 v]
  by blast

end
